theory Spec2Isabelle
  imports Main "HOL-Library.AList" "HOL-Library.Word"
begin

section \<open>Sheet-to-Notion synchronisation: a shallow embedding\<close>

text \<open>
  The program \<^verbatim>\<open>sync_working_files_to_notion.py\<close> reads the rows of a worksheet that lie
  after a persisted watermark, creates one Notion page per row that has a description,
  and then overwrites the watermark file. Its functions are embedded below in the order
  of the source. The three remote services are parameters (\<open>services\<close>); everything the
  program changes is a field of the explicit state \<open>world\<close>; every exception of the source
  is a value of \<open>py_error\<close> returned as \<open>Inl\<close>.

  Modelling conventions:
  \<^item> A Python \<^verbatim>\<open>str\<close> is a \<open>string\<close>; a \<open>char\<close> stands for the code point of the same
    number, so the model covers text whose code points are below 256.
  \<^item> Python integers are unbounded: \<open>int\<close>. The conversions between integers and
    decimal strings (\<^verbatim>\<open>int()\<close>, \<^verbatim>\<open>str()\<close>, formatted strings) raise \<^verbatim>\<open>ValueError\<close>
    for a number of more than \<open>int_max_str_digits\<close> digits, as CPython does with its
    default setting.
  \<^item> The local file system is reliable: opening, reading and writing the state file
    do not fail.
\<close>

subsection \<open>Python values and builtins\<close>

datatype py_error =
    ValueError
  | IndexError
  | RuntimeError string
  | ServiceError string

type_synonym bytes = "8 word list"

text \<open>
  Whitespace. \<^verbatim>\<open>str.strip\<close> removes the characters for which \<^verbatim>\<open>str.isspace\<close> holds;
  \<^verbatim>\<open>int\<close> skips fewer characters around a number (not the separators \<^verbatim>\<open>\x1c\<close> to
  \<^verbatim>\<open>\x1f\<close>). Both sets are given for code points below 256.
\<close>

definition is_space :: "char \<Rightarrow> bool" where
  "is_space c = ((of_char c :: nat) \<in> set [9, 10, 11, 12, 13, 28, 29, 30, 31, 32, 133, 160])"

definition is_int_space :: "char \<Rightarrow> bool" where
  "is_int_space c = ((of_char c :: nat) \<in> set [9, 10, 11, 12, 13, 32, 133, 160])"

definition strip_by :: "(char \<Rightarrow> bool) \<Rightarrow> string \<Rightarrow> string" where
  "strip_by P s = rev (dropWhile P (rev (dropWhile P s)))"

text \<open>\<^verbatim>\<open>s.strip()\<close>: leading and trailing whitespace removed.\<close>

definition py_strip :: "string \<Rightarrow> string" where
  "py_strip s = strip_by is_space s"

definition is_digit :: "char \<Rightarrow> bool" where
  "is_digit c = (48 \<le> (of_char c :: nat) \<and> (of_char c :: nat) \<le> 57)"

definition digit_val :: "char \<Rightarrow> int" where
  "digit_val c = int (of_char c - 48)"

text \<open>
  The digits of a decimal literal as \<^verbatim>\<open>int()\<close> reads them: at least one digit, single
  underscores allowed between digits only. The flag says whether the previous character
  was a digit; the accumulator is the value read so far.
\<close>

fun digit_run :: "bool \<Rightarrow> int \<Rightarrow> string \<Rightarrow> int option" where
  "digit_run prev_digit acc [] = (if prev_digit then Some acc else None)"
| "digit_run prev_digit acc (c # cs) =
     (if is_digit c then digit_run True (acc * 10 + digit_val c) cs
      else if c = CHR ''_'' \<and> prev_digit then digit_run False acc cs
      else None)"

text \<open>
  The interpreter's limit on the number of digits converted between an integer and a
  decimal string: CPython's default, 4300. The sign, underscores and whitespace do not
  count; leading zeros do.
\<close>

definition int_max_str_digits :: nat where
  "int_max_str_digits = 4300"

text \<open>
  The digits after the optional sign: \<^verbatim>\<open>ValueError\<close> when they are malformed, and also
  when they are well formed but more than the limit.
\<close>

definition parse_digits :: "string \<Rightarrow> py_error + int" where
  "parse_digits ds =
     (case digit_run False 0 ds of
        None \<Rightarrow> Inl ValueError
      | Some n \<Rightarrow>
          (if int_max_str_digits < length (filter is_digit ds) then Inl ValueError
           else Inr n))"

text \<open>
  \<^verbatim>\<open>int(s)\<close> for a string: the whitespace around is skipped, one optional sign, then the
  digits. Anything else raises \<^verbatim>\<open>ValueError\<close>.
\<close>

definition py_int :: "string \<Rightarrow> py_error + int" where
  "py_int s =
     (case strip_by is_int_space s of
        [] \<Rightarrow> Inl ValueError
      | c # cs \<Rightarrow>
          (if c = CHR ''-'' then
             (case parse_digits cs of Inl e \<Rightarrow> Inl e | Inr n \<Rightarrow> Inr (- n))
           else if c = CHR ''+'' then parse_digits cs
           else parse_digits (c # cs)))"

definition digit_char :: "nat \<Rightarrow> char" where
  "digit_char d = char_of (48 + d)"

function dec_digits :: "nat \<Rightarrow> string" where
  "dec_digits n = (if n < 10 then [digit_char n] else dec_digits (n div 10) @ [digit_char (n mod 10)])"
  by pat_completeness auto
termination
  by (relation "measure (\<lambda>n. n)") auto

declare dec_digits.simps [simp del]

text \<open>The decimal string of an integer: a minus sign for a negative number, then the digits.\<close>

definition decimal :: "int \<Rightarrow> string" where
  "decimal n = (if n < 0 then CHR ''-'' # dec_digits (nat (- n)) else dec_digits (nat n))"

text \<open>
  \<^verbatim>\<open>str(n)\<close> for an integer, and \<^verbatim>\<open>{n}\<close> in a formatted string: the decimal string, or
  \<^verbatim>\<open>ValueError\<close> when the number has more digits than the limit.
\<close>

definition py_str :: "int \<Rightarrow> py_error + string" where
  "py_str n =
     (if int_max_str_digits < length (dec_digits (nat \<bar>n\<bar>)) then Inl ValueError
      else Inr (decimal n))"

text \<open>\<^verbatim>\<open>s.startswith(p)\<close>.\<close>

fun startswith :: "string \<Rightarrow> string \<Rightarrow> bool" where
  "startswith s [] = True"
| "startswith [] (p # ps) = False"
| "startswith (c # cs) (p # ps) = (c = p \<and> startswith cs ps)"

text \<open>\<^verbatim>\<open>sub in s\<close> for strings: \<open>sub\<close> occurs in \<open>s\<close> as a contiguous piece.\<close>

fun str_contains :: "string \<Rightarrow> string \<Rightarrow> bool" where
  "str_contains [] sub = (sub = [])"
| "str_contains (c # cs) sub = (startswith (c # cs) sub \<or> str_contains cs sub)"

text \<open>\<^verbatim>\<open>s.split(sep)\<close> for a one-character separator: never the empty list.\<close>

fun py_split :: "char \<Rightarrow> string \<Rightarrow> string list" where
  "py_split sep [] = [[]]"
| "py_split sep (c # cs) =
     (if c = sep then [] # py_split sep cs
      else (case py_split sep cs of [] \<Rightarrow> [[c]] | p # ps \<Rightarrow> (c # p) # ps))"

text \<open>\<^verbatim>\<open>xs.index(x)\<close>: the first position of \<open>x\<close>, \<^verbatim>\<open>ValueError\<close> when there is none.\<close>

fun list_index :: "'a list \<Rightarrow> 'a \<Rightarrow> py_error + nat" where
  "list_index [] x = Inl ValueError"
| "list_index (y # ys) x =
     (if y = x then Inr 0
      else (case list_index ys x of Inl e \<Rightarrow> Inl e | Inr i \<Rightarrow> Inr (Suc i)))"

text \<open>\<^verbatim>\<open>xs[i]\<close> for a non-negative index: \<^verbatim>\<open>IndexError\<close> out of range.\<close>

definition list_get :: "'a list \<Rightarrow> nat \<Rightarrow> py_error + 'a" where
  "list_get xs i = (if i < length xs then Inr (xs ! i) else Inl IndexError)"

subsection \<open>Data model\<close>

type_synonym row = "string list"

text \<open>
  The typed payloads of a Notion property, one constructor per shape the program builds:
  \<^item> \<open>Title s\<close> is \<^verbatim>\<open>{"title": [{"type": "text", "text": {"content": s}}]}\<close>,
  \<^item> \<open>Select s\<close> is \<^verbatim>\<open>{"select": {"name": s}}\<close>,
  \<^item> \<open>RichText s\<close> is \<^verbatim>\<open>{"rich_text": [{"text": {"content": s}}]}\<close>,
  \<^item> \<open>Date s\<close> is \<^verbatim>\<open>{"date": {"start": s}}\<close>,
  \<^item> \<open>Url s\<close> is \<^verbatim>\<open>{"url": s}\<close>.
  A \<^verbatim>\<open>dict\<close> keeps insertion order: an association list, assigned to with \<open>AList.update\<close>.
\<close>

datatype property_value =
    Title string
  | Select string
  | RichText string
  | Date string
  | Url string

type_synonym properties = "(string \<times> property_value) list"

datatype block = Block string

text \<open>The arguments of one \<^verbatim>\<open>notion.pages.create\<close> call.\<close>

record page_request =
  parent_database_id :: string
  page_properties :: properties
  page_children :: "block list"

text \<open>The arguments of one \<^verbatim>\<open>files().export_media\<close> call.\<close>

record export_request =
  fileId :: string
  mimeType :: string

text \<open>
  The remote services. Each answer may depend on the requests made before.
  \<^item> \<open>service_account_load path\<close>: loading the credentials and building the two Google
    clients; \<open>Some e\<close> when that raises.
  \<^item> \<open>sheets_values_get sheet_id range\<close>: the \<^verbatim>\<open>values().get(...).execute()\<close> call; the
    answer is the content of the \<^verbatim>\<open>"values"\<close> key, \<open>None\<close> when the key is missing.
  \<^item> \<open>drive_export_media earlier request\<close>: the executed export; the PDF bytes or an exception.
  \<^item> \<open>notion_pages_create created request\<close>: \<open>Some e\<close> when the call raises.
\<close>

record services =
  service_account_load :: "string \<Rightarrow> py_error option"
  sheets_values_get :: "string \<Rightarrow> string \<Rightarrow> py_error + row list option"
  drive_export_media :: "export_request list \<Rightarrow> export_request \<Rightarrow> py_error + bytes"
  notion_pages_create :: "page_request list \<Rightarrow> page_request \<Rightarrow> py_error option"

text \<open>
  Everything the program can change: the content of \<^verbatim>\<open>last_synced_row.txt\<close> (\<open>None\<close> when
  the file does not exist), the contents that file was left with each time the run opened
  it for writing, in order,
  the export requests executed, the pages created, and the lines printed.
\<close>

record world =
  state_file :: "string option"
  file_writes :: "string list"
  drive_requests :: "export_request list"
  notion_pages :: "page_request list"
  stdout :: "string list"

type_synonym environ = "string \<rightharpoonup> string"

subsection \<open>Services and fetching\<close>

text \<open>Truth value of an optional string: neither \<^verbatim>\<open>None\<close> nor empty.\<close>

fun truthy :: "'a list option \<Rightarrow> bool" where
  "truthy None = False"
| "truthy (Some s) = (s \<noteq> [])"

definition get_google_services :: "services \<Rightarrow> environ \<Rightarrow> py_error + unit" where
  "get_google_services sv env =
     (let creds_path = env ''GOOGLE_SERVICE_ACCOUNT_FILE'' in
      case creds_path of
        None \<Rightarrow> Inl (RuntimeError
          ''Environment variable GOOGLE_SERVICE_ACCOUNT_FILE must point to the service account JSON'')
      | Some p \<Rightarrow>
          (if p = [] then Inl (RuntimeError
             ''Environment variable GOOGLE_SERVICE_ACCOUNT_FILE must point to the service account JSON'')
           else (case service_account_load sv p of Some e \<Rightarrow> Inl e | None \<Rightarrow> Inr ())))"

definition read_sheet_rows :: "services \<Rightarrow> string \<Rightarrow> string \<Rightarrow> int \<Rightarrow> py_error + row list" where
  "read_sheet_rows sv sheet_id worksheet_name start_row =
     (case py_str start_row of
        Inl e \<Rightarrow> Inl e
      | Inr start_row_str \<Rightarrow>
          (let range_name = worksheet_name @ ''!A'' @ start_row_str @ '':Z'' in
           case sheets_values_get sv sheet_id range_name of
             Inl e \<Rightarrow> Inl e
           | Inr None \<Rightarrow> Inr []
           | Inr (Some values) \<Rightarrow> Inr values))"

subsection \<open>The watermark\<close>

text \<open>
  The \<^verbatim>\<open>try\<close> around \<^verbatim>\<open>int(f.read().strip())\<close> catches \<^verbatim>\<open>ValueError\<close> only; any other
  exception would leave the function.
\<close>

definition get_last_synced_row :: "world \<Rightarrow> py_error + int" where
  "get_last_synced_row w =
     (case state_file w of
        None \<Rightarrow> Inr 1
      | Some content \<Rightarrow>
          (case py_int (py_strip content) of
             Inr n \<Rightarrow> Inr n
           | Inl ValueError \<Rightarrow> Inr 1
           | Inl e \<Rightarrow> Inl e))"

text \<open>
  \<^verbatim>\<open>open(STATE_FILE, "w")\<close> empties the file before \<^verbatim>\<open>str(row_index)\<close> is evaluated: when
  that raises, the file is left empty and the exception leaves the function.
\<close>

definition update_last_synced_row :: "int \<Rightarrow> world \<Rightarrow> (py_error + unit) \<times> world" where
  "update_last_synced_row row_index w =
     (case py_str row_index of
        Inl e \<Rightarrow> (Inl e, w\<lparr>state_file := Some [], file_writes := file_writes w @ [[]]\<rparr>)
      | Inr s \<Rightarrow> (Inr (), w\<lparr>state_file := Some s, file_writes := file_writes w @ [s]\<rparr>))"

subsection \<open>Export\<close>

text \<open>
  The body of the first \<^verbatim>\<open>try\<close> of \<^verbatim>\<open>export_file_to_pdf\<close>: the identifier is the piece
  after the first piece \<^verbatim>\<open>"d"\<close> of the URL split at \<^verbatim>\<open>"/"\<close>. Both branches of the test
  for \<^verbatim>\<open>"drive.google.com"\<close> compute the same index.
\<close>

definition export_file_id :: "string \<Rightarrow> py_error + string" where
  "export_file_id file_url =
     (let parts = py_split CHR ''/'' file_url in
      case (if str_contains file_url ''drive.google.com''
            then list_index parts ''d''
            else list_index parts ''d'') of
        Inl e \<Rightarrow> Inl e
      | Inr i \<Rightarrow> list_get parts (i + 1))"

text \<open>
  The first handler catches \<^verbatim>\<open>ValueError\<close> and \<^verbatim>\<open>IndexError\<close>, the second every
  exception of the export call. An export request that is executed is recorded in
  \<open>drive_requests\<close>, whatever its outcome.
\<close>

definition export_file_to_pdf ::
    "services \<Rightarrow> world \<Rightarrow> string \<Rightarrow> (py_error + bytes option) \<times> world" where
  "export_file_to_pdf sv w file_url =
     (case export_file_id file_url of
        Inl ValueError \<Rightarrow> (Inr None, w)
      | Inl IndexError \<Rightarrow> (Inr None, w)
      | Inl e \<Rightarrow> (Inl e, w)
      | Inr file_id \<Rightarrow>
          (let request = \<lparr>fileId = file_id, mimeType = ''application/pdf''\<rparr>;
               w' = w\<lparr>drive_requests := drive_requests w @ [request]\<rparr>
           in case drive_export_media sv (drive_requests w) request of
                Inl e \<Rightarrow> (Inr None, w')
              | Inr pdf_data \<Rightarrow> (Inr (Some pdf_data), w')))"

subsection \<open>Creating a page\<close>

text \<open>
  \<^verbatim>\<open>children\<close> is the empty list; \<^verbatim>\<open>file_bytes\<close> and \<^verbatim>\<open>file_name\<close> are parameters the body
  never reads. An exception of \<^verbatim>\<open>notion.pages.create\<close> leaves the function, and then no
  page has been created.
\<close>

definition notion_create_entry ::
    "services \<Rightarrow> world \<Rightarrow> string \<Rightarrow> properties \<Rightarrow> bytes option \<Rightarrow> string option
       \<Rightarrow> (py_error + unit) \<times> world" where
  "notion_create_entry sv w database_id props file_bytes file_name =
     (let children = [];
          request = \<lparr>parent_database_id = database_id, page_properties = props,
                     page_children = children\<rparr>
      in case notion_pages_create sv (notion_pages w) request of
           Some e \<Rightarrow> (Inl e, w)
         | None \<Rightarrow> (Inr (), w\<lparr>notion_pages := notion_pages w @ [request]\<rparr>))"

subsection \<open>The main pipeline\<close>

text \<open>\<^verbatim>\<open>row[i] if len(row) > i else ""\<close>.\<close>

definition cell :: "row \<Rightarrow> nat \<Rightarrow> string" where
  "cell r i = (if length r > i then r ! i else [])"

text \<open>
  Lines 199 to 208 of \<^verbatim>\<open>main\<close>: the result is
  \<open>(file_data, file_name, file_url_for_notion)\<close>.
\<close>

definition resolve_file ::
    "services \<Rightarrow> world \<Rightarrow> string \<Rightarrow> string \<Rightarrow> string
       \<Rightarrow> (py_error + bytes option \<times> string option \<times> string option) \<times> world" where
  "resolve_file sv w description link pdf_link =
     (if pdf_link \<noteq> [] then (Inr (None, None, Some pdf_link), w)
      else if link \<noteq> [] \<and> startswith link ''http'' then
        (case export_file_to_pdf sv w link of
           (Inl e, w') \<Rightarrow> (Inl e, w')
         | (Inr file_data, w') \<Rightarrow>
             (if truthy file_data then (Inr (file_data, Some (description @ ''.pdf''), None), w')
              else (Inr (file_data, None, None), w')))
      else (Inr (None, None, None), w))"

text \<open>Lines 210 to 228 of \<^verbatim>\<open>main\<close>: the property dictionary of one row.\<close>

definition build_properties ::
    "string \<Rightarrow> string \<Rightarrow> string \<Rightarrow> string \<Rightarrow> string option \<Rightarrow> properties" where
  "build_properties description category remark file_date file_url_for_notion =
     (let props = [(''File Name'', Title description)];
          props = (if category \<noteq> [] then AList.update ''Category'' (Select category) props
                   else props);
          props = (if remark \<noteq> [] then AList.update ''Remark'' (RichText remark) props
                   else props);
          props = (if file_date \<noteq> [] then AList.update ''File Date'' (Date file_date) props
                   else props);
          props = (case file_url_for_notion of
                     None \<Rightarrow> props
                   | Some u \<Rightarrow> (if u \<noteq> [] then AList.update ''Link'' (Url u) props else props))
      in props)"

text \<open>
  The creation request that one iteration makes for a row with a description: the
  properties of lines 210 to 228, where \<^verbatim>\<open>file_url_for_notion\<close> is the PDF link when
  the row has one and \<^verbatim>\<open>None\<close> otherwise (an export sets \<^verbatim>\<open>file_data\<close> and
  \<^verbatim>\<open>file_name\<close> only).
\<close>

definition row_request :: "string \<Rightarrow> row \<Rightarrow> page_request" where
  "row_request notion_db_id r =
     \<lparr>parent_database_id = notion_db_id,
      page_properties = build_properties (cell r 1) (cell r 4) (cell r 5) (cell r 6)
                          (if cell r 3 \<noteq> [] then Some (cell r 3) else None),
      page_children = []\<rparr>"

text \<open>
  One iteration of the \<^verbatim>\<open>for row in rows\<close> loop. The loop variables are
  \<open>(current_row, synced_count)\<close>; an exception ends the iteration with the world as it
  was when the exception was raised.
\<close>

definition main_loop_body ::
    "services \<Rightarrow> string \<Rightarrow> row \<Rightarrow> int \<times> int \<times> world \<Rightarrow> (py_error + int \<times> int) \<times> world" where
  "main_loop_body sv notion_db_id r st =
     (case st of (current_row0, synced_count, w) \<Rightarrow>
        (let current_row = current_row0 + 1;
             description = cell r 1;
             link = cell r 2;
             pdf_link = cell r 3;
             category = cell r 4;
             remark = cell r 5;
             file_date = cell r 6
         in if description = [] then (Inr (current_row, synced_count), w)
            else
              (case resolve_file sv w description link pdf_link of
                 (Inl e, w1) \<Rightarrow> (Inl e, w1)
               | (Inr (file_data, file_name, file_url_for_notion), w1) \<Rightarrow>
                   (let props = build_properties description category remark file_date
                                  file_url_for_notion
                    in case notion_create_entry sv w1 notion_db_id props file_data file_name of
                         (Inl e, w2) \<Rightarrow> (Inl e, w2)
                       | (Inr u, w2) \<Rightarrow> (Inr (current_row, synced_count + 1), w2)))))"

text \<open>
  The loop over the fetched rows, from the loop variables and the world before the first
  row: the first exception ends it.
\<close>

fun main_loop ::
    "services \<Rightarrow> string \<Rightarrow> row list \<Rightarrow> int \<times> int \<times> world \<Rightarrow> (py_error + int \<times> int) \<times> world" where
  "main_loop sv notion_db_id [] st = (Inr (fst st, fst (snd st)), snd (snd st))"
| "main_loop sv notion_db_id (r # rs) st =
     (case main_loop_body sv notion_db_id r st of
        (Inl e, w') \<Rightarrow> (Inl e, w')
      | (Inr (current_row, synced_count), w') \<Rightarrow>
          main_loop sv notion_db_id rs (current_row, synced_count, w'))"

definition print :: "string \<Rightarrow> world \<Rightarrow> world" where
  "print line w = w\<lparr>stdout := stdout w @ [line]\<rparr>"

text \<open>Lines 174 to 233 of \<^verbatim>\<open>main\<close>, after the configuration has been read.\<close>

definition main_sync ::
    "services \<Rightarrow> string \<Rightarrow> string \<Rightarrow> string \<Rightarrow> world \<Rightarrow> (py_error + unit) \<times> world" where
  "main_sync sv sheet_id worksheet_name notion_db_id w =
     (case get_last_synced_row w of
        Inl e \<Rightarrow> (Inl e, w)
      | Inr last_row \<Rightarrow>
          (let start = last_row + 1 in
           case read_sheet_rows sv sheet_id worksheet_name start of
             Inl e \<Rightarrow> (Inl e, w)
           | Inr rows \<Rightarrow>
               (if rows = [] then (Inr (), print ''No new rows to sync.'' w)
                else
                  (case main_loop sv notion_db_id rows (last_row, 0, w) of
                     (Inl e, w') \<Rightarrow> (Inl e, w')
                   | (Inr (current_row, synced_count), w') \<Rightarrow>
                       (case update_last_synced_row current_row w' of
                          (Inl e, w'') \<Rightarrow> (Inl e, w'')
                        | (Inr u, w'') \<Rightarrow>
                            (case py_str synced_count of
                               Inl e \<Rightarrow> (Inl e, w'')
                             | Inr synced_count_str \<Rightarrow>
                                 (case py_str current_row of
                                    Inl e \<Rightarrow> (Inl e, w'')
                                  | Inr current_row_str \<Rightarrow>
                                      (Inr (),
                                       print (''Synced '' @ synced_count_str
                                                @ '' new records. Last synced row: ''
                                                @ current_row_str @ ''.'') w''))))))))"

text \<open>
  \<^verbatim>\<open>main\<close>. The environment is a map from variable names to values. The test
  \<^verbatim>\<open>all([sheet_id, notion_key, notion_db_id])\<close> asks that the three are set and not empty;
  then the Google clients are built, which may raise. Building the Notion client from the
  key has no effect of its own.
\<close>

definition main :: "services \<Rightarrow> environ \<Rightarrow> world \<Rightarrow> (py_error + unit) \<times> world" where
  "main sv env w =
     (let sheet_id = env ''SHEET_ID'';
          worksheet_name = (case env ''WORKSHEET_NAME'' of None \<Rightarrow> ''Microneedling'' | Some n \<Rightarrow> n);
          notion_key = env ''NOTION_API_KEY'';
          notion_db_id = env ''NOTION_DATABASE_ID''
      in case (sheet_id, notion_db_id) of
           (Some sid, Some db) \<Rightarrow>
             (if \<not> (truthy sheet_id \<and> truthy notion_key \<and> truthy notion_db_id) then
                (Inl (RuntimeError
                   ''SHEET_ID, NOTION_API_KEY, and NOTION_DATABASE_ID environment variables must be set''), w)
              else
                (case get_google_services sv env of
                   Inl e \<Rightarrow> (Inl e, w)
                 | Inr u \<Rightarrow> main_sync sv sid worksheet_name db w))
         | _ \<Rightarrow>
             (Inl (RuntimeError
                ''SHEET_ID, NOTION_API_KEY, and NOTION_DATABASE_ID environment variables must be set''), w))"

subsection \<open>Concrete runs\<close>

text \<open>
  Inputs on which the theorems below are exercised: a complete configuration, a world
  whose watermark file holds \<^verbatim>\<open>5\<close>, and services whose spreadsheet answers the one
  request the program then makes (sheet \<^verbatim>\<open>sheet\<close>, range \<^verbatim>\<open>Microneedling!A6:Z\<close>) with the
  given rows. \<open>scenario_rows\<close> are the three rows of the end-to-end scenario of the
  specification; their columns are Notion URL, Description, Link, PDF Link.
\<close>

definition example_environ :: environ where
  "example_environ =
     [''GOOGLE_SERVICE_ACCOUNT_FILE'' \<mapsto> ''key.json'', ''SHEET_ID'' \<mapsto> ''sheet'',
      ''NOTION_API_KEY'' \<mapsto> ''secret'', ''NOTION_DATABASE_ID'' \<mapsto> ''db'']"

definition example_world :: world where
  "example_world =
     \<lparr>state_file = Some ''5'', file_writes = [], drive_requests = [], notion_pages = [],
      stdout = []\<rparr>"

definition example_services ::
    "row list \<Rightarrow> (export_request list \<Rightarrow> export_request \<Rightarrow> py_error + bytes)
       \<Rightarrow> (page_request list \<Rightarrow> page_request \<Rightarrow> py_error option) \<Rightarrow> services" where
  "example_services rows d c =
     \<lparr>service_account_load = (\<lambda>p. None),
      sheets_values_get = (\<lambda>sid rng.
         if sid = ''sheet'' \<and> rng = ''Microneedling!A6:Z'' then Inr (Some rows)
         else Inl (ServiceError ''unexpected request'')),
      drive_export_media = d,
      notion_pages_create = c\<rparr>"

definition scenario_rows :: "row list" where
  "scenario_rows =
     [['''', ''A'', '''', ''http://x/a.pdf''],
      ['''', ''''],
      ['''', ''B'', ''https://docs.google.com/document/d/XYZ/edit'']]"

definition three_rows :: "row list" where
  "three_rows = [['''', ''A''], ['''', ''B''], ['''', ''C'']]"

definition export_fails :: "export_request list \<Rightarrow> export_request \<Rightarrow> py_error + bytes" where
  "export_fails earlier request = Inl (ServiceError ''export failed'')"

definition create_succeeds :: "page_request list \<Rightarrow> page_request \<Rightarrow> py_error option" where
  "create_succeeds created request = None"

text \<open>The writer that fails on the second record and on no other.\<close>

definition create_fails_second :: "page_request list \<Rightarrow> page_request \<Rightarrow> py_error option" where
  "create_fails_second created request =
     (if length created = 1 then Some (ServiceError ''create failed'') else None)"

text \<open>A first run: no watermark file yet, and a sheet with no rows after the header.\<close>

definition absent_world :: world where
  "absent_world =
     \<lparr>state_file = None, file_writes = [], drive_requests = [], notion_pages = [],
      stdout = []\<rparr>"

definition empty_sheet_services :: services where
  "empty_sheet_services =
     \<lparr>service_account_load = (\<lambda>p. None),
      sheets_values_get = (\<lambda>sid rng.
         if sid = ''sheet'' \<and> rng = ''Microneedling!A2:Z'' then Inr (Some [])
         else Inl (ServiceError ''unexpected request'')),
      drive_export_media = export_fails,
      notion_pages_create = create_succeeds\<rparr>"

section \<open>Properties\<close>

subsection \<open>Reading back a written integer\<close>

lemma is_digit_digit_char: "d < 10 \<Longrightarrow> is_digit (digit_char d)"
  by (simp add: is_digit_def digit_char_def)

lemma digit_val_digit_char: "d < 10 \<Longrightarrow> digit_val (digit_char d) = int d"
  by (simp add: digit_val_def digit_char_def)

text \<open>Reading the digits of \<open>n\<close> shifts the accumulator and adds \<open>n\<close>.\<close>

lemma digit_run_dec_digits:
  "digit_run b acc (dec_digits n @ rest) =
     digit_run True (acc * 10 ^ length (dec_digits n) + int n) rest"
proof (induction n arbitrary: b acc rest rule: dec_digits.induct)
  case (1 n)
  show ?case
  proof (cases "n < 10")
    case True
    then show ?thesis
      by (simp add: dec_digits.simps [of n] is_digit_digit_char digit_val_digit_char)
  next
    case False
    have m: "n mod 10 < 10" by simp
    have "int n = int (n div 10) * 10 + int (n mod 10)" by presburger
    with False 1 [OF False] show ?thesis
      by (simp add: dec_digits.simps [of n] is_digit_digit_char [OF m]
            digit_val_digit_char [OF m] algebra_simps)
  qed
qed

lemma digit_run_dec_digits0: "digit_run False 0 (dec_digits n) = Some (int n)"
  using digit_run_dec_digits [of False 0 n "[]"] by simp

lemma dec_digits_all_digits: "c \<in> set (dec_digits n) \<Longrightarrow> is_digit c"
proof (induction n rule: dec_digits.induct)
  case (1 n)
  then show ?case
    by (cases "n < 10") (auto simp: dec_digits.simps [of n] is_digit_digit_char)
qed

lemma dec_digits_nonempty: "dec_digits n \<noteq> []"
  by (subst dec_digits.simps) simp

lemma is_digit_not_space: "is_digit c \<Longrightarrow> \<not> is_space c"
  by (auto simp: is_digit_def is_space_def)

lemma is_digit_not_sign: "is_digit c \<Longrightarrow> c \<noteq> CHR ''-'' \<and> c \<noteq> CHR ''+''"
  by (auto simp: is_digit_def)

subsection \<open>Stripping whitespace\<close>

lemma dropWhile_padding:
  "\<forall>c \<in> set ws. P c \<Longrightarrow> s \<noteq> [] \<Longrightarrow> \<not> P (hd s) \<Longrightarrow> dropWhile P (ws @ s) = s"
  by (induction ws) (auto simp: neq_Nil_conv)

lemma strip_by_padded:
  assumes "\<forall>c \<in> set ws1. P c" "\<forall>c \<in> set ws2. P c"
    and "s \<noteq> []" "\<not> P (hd s)" "\<not> P (last s)"
  shows "strip_by P (ws1 @ s @ ws2) = s"
proof -
  have 1: "dropWhile P (ws1 @ s @ ws2) = s @ ws2"
    using assms by (intro dropWhile_padding) (auto simp: hd_append)
  have 2: "dropWhile P (rev ws2 @ rev s) = rev s"
    using assms by (intro dropWhile_padding) (auto simp: hd_rev)
  show ?thesis by (simp add: strip_by_def 1 2)
qed

lemma strip_by_fixed:
  assumes "s \<noteq> [] \<Longrightarrow> \<not> P (hd s) \<and> \<not> P (last s)"
  shows "strip_by P s = s"
proof (cases "s = []")
  case True
  then show ?thesis by (simp add: strip_by_def)
next
  case False
  with assms strip_by_padded [of "[]" P "[]" s] show ?thesis by simp
qed

text \<open>What is left after stripping neither begins nor ends with a stripped character.\<close>

lemma strip_by_ends:
  assumes "strip_by P s \<noteq> []"
  shows "\<not> P (hd (strip_by P s)) \<and> \<not> P (last (strip_by P s))"
proof -
  define d where "d = dropWhile P s"
  define r where "r = dropWhile P (rev d)"
  have t: "strip_by P s = rev r" by (simp add: strip_by_def d_def r_def)
  with assms have r: "r \<noteq> []" by simp
  then have "\<not> P (hd r)" unfolding r_def by (rule hd_dropWhile)
  with r have l: "\<not> P (last (rev r))" by (simp add: last_rev)
  have "rev d = takeWhile P (rev d) @ r" by (simp add: r_def)
  then have "d = rev r @ rev (takeWhile P (rev d))"
    by (metis rev_append rev_rev_ident)
  with r have "hd (rev r) = hd d" by (metis hd_append2 rev_is_Nil_conv)
  moreover from r have "d \<noteq> []" by (auto simp: r_def)
  then have "\<not> P (hd d)" unfolding d_def by (rule hd_dropWhile)
  ultimately show ?thesis using l by (simp add: t)
qed

lemma is_int_space_is_space: "is_int_space c \<Longrightarrow> is_space c"
  by (auto simp: is_int_space_def is_space_def)

text \<open>
  On a string that \<^verbatim>\<open>strip()\<close> returned, the whitespace skipping of \<^verbatim>\<open>int()\<close> finds
  nothing to skip.
\<close>

lemma int_strip_after_py_strip: "strip_by is_int_space (py_strip s) = py_strip s"
proof (rule strip_by_fixed)
  assume "py_strip s \<noteq> []"
  then have "\<not> is_space (hd (py_strip s)) \<and> \<not> is_space (last (py_strip s))"
    unfolding py_strip_def by (rule strip_by_ends)
  then show "\<not> is_int_space (hd (py_strip s)) \<and> \<not> is_int_space (last (py_strip s))"
    using is_int_space_is_space by blast
qed

lemma decimal_shape:
  "decimal n \<noteq> [] \<and> \<not> is_space (hd (decimal n)) \<and> \<not> is_space (last (decimal n))"
proof -
  have a: "dec_digits k \<noteq> []" for k by (rule dec_digits_nonempty)
  have h: "\<not> is_space (hd (dec_digits k))" for k
    using a [of k] dec_digits_all_digits [of "hd (dec_digits k)" k] is_digit_not_space by auto
  have l: "\<not> is_space (last (dec_digits k))" for k
    using a [of k] dec_digits_all_digits [of "last (dec_digits k)" k] is_digit_not_space by auto
  have m: "\<not> is_space CHR ''-''" by (simp add: is_space_def)
  show ?thesis using a h l m by (simp add: decimal_def)
qed

lemma py_strip_padded:
  assumes "\<forall>c \<in> set ws1. is_space c" "\<forall>c \<in> set ws2. is_space c"
  shows "py_strip (ws1 @ decimal n @ ws2) = decimal n"
  unfolding py_strip_def using assms decimal_shape [of n] by (intro strip_by_padded) auto

lemma py_strip_decimal: "py_strip (decimal n) = decimal n"
  using py_strip_padded [of "[]" "[]" n] by simp

subsection \<open>The number of digits\<close>

lemma filter_dec_digits: "filter is_digit (dec_digits k) = dec_digits k"
  using dec_digits_all_digits [of _ k] by (simp add: filter_id_conv)

text \<open>A natural number has at most \<open>k\<close> digits exactly when it is below \<open>10 ^ k\<close>.\<close>

lemma dec_digits_length_le: "0 < k \<Longrightarrow> n < 10 ^ k \<Longrightarrow> length (dec_digits n) \<le> k"
proof (induction n arbitrary: k rule: dec_digits.induct)
  case (1 n)
  show ?case
  proof (cases "n < 10")
    case True
    with "1.prems" show ?thesis by (simp add: dec_digits.simps [of n])
  next
    case False
    with "1.prems" obtain j where k: "k = Suc j" by (cases k) auto
    from False "1.prems" k have j: "0 < j" by (cases j) auto
    from "1.prems" k have "n div 10 < 10 ^ j"
      by (simp add: less_mult_imp_div_less mult.commute)
    from "1.IH" [OF False j this] False k show ?thesis
      by (simp add: dec_digits.simps [of n])
  qed
qed

lemma dec_digits_length_gt: "10 ^ k \<le> n \<Longrightarrow> k < length (dec_digits n)"
proof (induction n arbitrary: k rule: dec_digits.induct)
  case (1 n)
  show ?case
  proof (cases "n < 10")
    case True
    with "1.prems" have "(10::nat) ^ k < 10 ^ 1" by simp
    then have "k < 1" by (rule power_less_imp_less_exp [rotated]) simp
    with True show ?thesis by (simp add: dec_digits.simps [of n])
  next
    case False
    show ?thesis
    proof (cases k)
      case 0
      with False show ?thesis by (simp add: dec_digits.simps [of n])
    next
      case (Suc j)
      with "1.prems" have "10 ^ j \<le> n div 10" by simp
      from "1.IH" [OF False this] False Suc show ?thesis
        by (simp add: dec_digits.simps [of n])
    qed
  qed
qed

lemma parse_digits_dec_digits:
  "length (dec_digits k) \<le> int_max_str_digits \<Longrightarrow> parse_digits (dec_digits k) = Inr (int k)"
  by (simp add: parse_digits_def digit_run_dec_digits0 filter_dec_digits)

lemma parse_digits_too_long:
  "int_max_str_digits < length (dec_digits k) \<Longrightarrow> parse_digits (dec_digits k) = Inl ValueError"
  by (simp add: parse_digits_def digit_run_dec_digits0 filter_dec_digits)

lemma parse_digits_error: "parse_digits ds = Inl e \<Longrightarrow> e = ValueError"
  by (auto simp: parse_digits_def split: option.splits if_splits)

lemma py_int_error: "py_int s = Inl e \<Longrightarrow> e = ValueError"
  by (auto simp: py_int_def split: list.splits if_splits sum.splits dest: parse_digits_error)

lemma int_strip_decimal: "strip_by is_int_space (decimal n) = decimal n"
  using decimal_shape [of n] is_int_space_is_space by (intro strip_by_fixed) blast

text \<open>
  A non-negative number within the limit is read back from its decimal string; one
  beyond the limit makes \<^verbatim>\<open>int()\<close> raise.
\<close>

lemma py_int_decimal_nonneg:
  assumes "0 \<le> n"
  shows "py_int (decimal n) =
    (if length (dec_digits (nat n)) \<le> int_max_str_digits then Inr n else Inl ValueError)"
proof -
  obtain c cs where d: "dec_digits (nat n) = c # cs"
    using dec_digits_nonempty [of "nat n"] by (auto simp: neq_Nil_conv)
  have "is_digit c" using dec_digits_all_digits [of c "nat n"] d by simp
  then have c: "c \<noteq> CHR ''-''" "c \<noteq> CHR ''+''" using is_digit_not_sign by auto
  from assms have e: "decimal n = c # cs" by (simp add: decimal_def d)
  have "py_int (decimal n) = parse_digits (dec_digits (nat n))"
    using int_strip_decimal [of n] c by (simp add: py_int_def e d)
  with assms show ?thesis
    using parse_digits_dec_digits [of "nat n"] parse_digits_too_long [of "nat n"] by auto
qed

lemma py_int_decimal_neg:
  assumes "n < 0" and "length (dec_digits (nat (- n))) \<le> int_max_str_digits"
  shows "py_int (decimal n) = Inr n"
proof -
  from assms(1) have e: "decimal n = CHR ''-'' # dec_digits (nat (- n))" by (simp add: decimal_def)
  show ?thesis
    using int_strip_decimal [of n] assms parse_digits_dec_digits [of "nat (- n)"]
    by (simp add: py_int_def e)
qed

text \<open>What \<^verbatim>\<open>str()\<close> returns, \<^verbatim>\<open>int()\<close> reads back.\<close>

lemma py_int_py_str: "py_str n = Inr s \<Longrightarrow> py_int s = Inr n"
proof -
  assume a: "py_str n = Inr s"
  then have s: "s = decimal n" and l: "length (dec_digits (nat \<bar>n\<bar>)) \<le> int_max_str_digits"
    by (auto simp: py_str_def split: if_splits)
  show ?thesis
  proof (cases "n < 0")
    case True
    with l have "length (dec_digits (nat (- n))) \<le> int_max_str_digits" by simp
    with True s show ?thesis by (simp add: py_int_decimal_neg)
  next
    case False
    with l have "length (dec_digits (nat n)) \<le> int_max_str_digits" by simp
    with False s show ?thesis by (simp add: py_int_decimal_nonneg)
  qed
qed

lemma py_str_decimal: "py_str n = Inr s \<Longrightarrow> s = decimal n"
  by (auto simp: py_str_def split: if_splits)

lemma py_str_error: "py_str n = Inl e \<Longrightarrow> e = ValueError"
  by (auto simp: py_str_def split: if_splits)

text \<open>After a write that did not raise, the watermark reads as the number written.\<close>

lemma get_after_update:
  "update_last_synced_row n w = (Inr u, w') \<Longrightarrow> get_last_synced_row w' = Inr n"
proof -
  assume a: "update_last_synced_row n w = (Inr u, w')"
  then obtain s where s: "py_str n = Inr s" and w': "state_file w' = Some s"
    by (auto simp: update_last_synced_row_def split: sum.splits)
  from s have "s = decimal n" by (rule py_str_decimal)
  then have "py_strip s = s" by (simp add: py_strip_decimal)
  with w' py_int_py_str [OF s] show ?thesis by (simp add: get_last_synced_row_def)
qed

text \<open>
  A write of a number beyond the limit: \<^verbatim>\<open>str()\<close> raises after the file has been opened,
  so the exception leaves the function with the file emptied.
\<close>

lemma update_beyond_limit:
  "update_last_synced_row (10 ^ int_max_str_digits) w =
     (Inl ValueError, w\<lparr>state_file := Some [], file_writes := file_writes w @ [[]]\<rparr>)"
proof -
  have n: "nat \<bar>10 ^ int_max_str_digits\<bar> = 10 ^ int_max_str_digits"
    by (simp add: nat_power_eq)
  have "int_max_str_digits < length (dec_digits (nat \<bar>10 ^ int_max_str_digits\<bar>))"
    by (rule dec_digits_length_gt) (simp only: n order_refl)
  then have "py_str (10 ^ int_max_str_digits) = Inl ValueError"
    unfolding py_str_def by (simp only: if_True)
  then show ?thesis by (simp add: update_last_synced_row_def)
qed

lemma get_last_synced_row_total: "\<exists>n. get_last_synced_row w = Inr n"
proof (cases "state_file w")
  case None
  then show ?thesis by (simp add: get_last_synced_row_def)
next
  case (Some content)
  show ?thesis
  proof (cases "py_int (py_strip content)")
    case (Inl e)
    then have "e = ValueError" by (rule py_int_error)
    with Inl Some show ?thesis by (simp add: get_last_synced_row_def)
  next
    case (Inr n)
    with Some show ?thesis by (simp add: get_last_synced_row_def)
  qed
qed

subsection \<open>Claims about the watermark reader\<close>

text \<open>
  The digit limit. The decimal string of \<open>10 ^ 4300\<close> has 4301 digits: \<^verbatim>\<open>int()\<close> raises
  \<^verbatim>\<open>ValueError\<close> on it, the handler catches that, and \<^verbatim>\<open>get_last_synced_row\<close> returns 1
  although the file holds the decimal string of a valid non-negative integer.
\<close>

theorem large_watermark_counterexample:
  "(0::int) \<le> 10 ^ int_max_str_digits
   \<and> int_max_str_digits = 4300
   \<and> get_last_synced_row \<lparr>state_file = Some (decimal (10 ^ int_max_str_digits)),
        file_writes = [], drive_requests = [], notion_pages = [], stdout = []\<rparr> = Inr 1
   \<and> (1::int) \<noteq> 10 ^ int_max_str_digits"
proof -
  have p: "0 < int_max_str_digits" by (simp add: int_max_str_digits_def)
  have n: "nat (10 ^ int_max_str_digits) = 10 ^ int_max_str_digits"
    by (simp add: nat_power_eq)
  have "int_max_str_digits < length (dec_digits (nat (10 ^ int_max_str_digits)))"
    by (rule dec_digits_length_gt) (simp only: n order_refl)
  then have e: "py_int (decimal (10 ^ int_max_str_digits)) = Inl ValueError"
    by (simp add: py_int_decimal_nonneg)
  have "(1::int) < 10 ^ int_max_str_digits" using p by (intro one_less_power) simp_all
  then have o: "(1::int) \<noteq> 10 ^ int_max_str_digits" by simp
  have g: "get_last_synced_row \<lparr>state_file = Some (decimal (10 ^ int_max_str_digits)),
        file_writes = [], drive_requests = [], notion_pages = [], stdout = []\<rparr> = Inr 1"
    by (simp add: get_last_synced_row_def py_strip_decimal e)
  have l: "int_max_str_digits = 4300" by (rule int_max_str_digits_def)
  have z: "(0::int) \<le> 10 ^ int_max_str_digits" by simp
  from z l g o show ?thesis by (intro conjI)
qed

text \<open>
  Claim C7, amended. When the watermark file holds the decimal string of a non-negative
  integer \<open>n\<close> of at most \<open>int_max_str_digits\<close> digits, that is \<open>n < 10 ^ 4300\<close>, possibly
  with whitespace around it, \<^verbatim>\<open>get_last_synced_row\<close> returns exactly \<open>n\<close>.
\<close>

theorem get_last_synced_row_reads_integer:
  assumes "0 \<le> n" and "n < 10 ^ int_max_str_digits"
    and "\<forall>c \<in> set ws1. is_space c" and "\<forall>c \<in> set ws2. is_space c"
    and "state_file w = Some (ws1 @ decimal n @ ws2)"
  shows "get_last_synced_row w = Inr n"
proof -
  have p: "0 < int_max_str_digits" by (simp add: int_max_str_digits_def)
  from assms(1,2) have "int (nat n) < int (10 ^ int_max_str_digits)" by simp
  then have "nat n < 10 ^ int_max_str_digits" by (simp only: of_nat_less_iff)
  with p have "length (dec_digits (nat n)) \<le> int_max_str_digits"
    by (rule dec_digits_length_le)
  with assms(1) have "py_int (decimal n) = Inr n" by (simp add: py_int_decimal_nonneg)
  with assms(3,4,5) py_strip_padded [of ws1 ws2 n] show ?thesis
    by (simp add: get_last_synced_row_def)
qed

theorem get_last_synced_row_reads_integer_witness:
  "(0::int) \<le> 42 \<and> (42::int) < 10 ^ int_max_str_digits
   \<and> get_last_synced_row \<lparr>state_file = Some ('' '' @ decimal 42 @ [CHR 0x0A]), file_writes = [],
        drive_requests = [], notion_pages = [], stdout = []\<rparr> = Inr 42
   \<and> '' '' @ decimal 42 @ [CHR 0x0A] = [CHR '' '', CHR ''4'', CHR ''2'', CHR 0x0A]"
proof -
  have d: "decimal 42 = ''42''" by code_simp
  have "(42::int) < 10 ^ 2" by simp
  also have "(10::int) ^ 2 \<le> 10 ^ int_max_str_digits"
    by (rule power_increasing) (simp_all add: int_max_str_digits_def)
  finally have b: "(42::int) < 10 ^ int_max_str_digits" .
  have s: "\<forall>c \<in> set '' ''. is_space c" "\<forall>c \<in> set [CHR 0x0A]. is_space c"
    by (simp_all add: is_space_def)
  have "get_last_synced_row \<lparr>state_file = Some ('' '' @ decimal 42 @ [CHR 0x0A]),
      file_writes = [], drive_requests = [], notion_pages = [], stdout = []\<rparr> = Inr 42"
    by (rule get_last_synced_row_reads_integer [OF _ b s]) simp_all
  with b d show ?thesis by (simp del: power_numeral)
qed

text \<open>
  Claim C8. When the watermark file is absent, or its content is not parseable as an
  integer (\<^verbatim>\<open>int\<close> of the stripped content, which is what the function parses, gives no
  integer), \<^verbatim>\<open>get_last_synced_row\<close> returns \<open>1\<close>; it returns a value and raises nothing.
\<close>

theorem get_last_synced_row_default:
  assumes "state_file w = None
    \<or> (\<exists>content. state_file w = Some content \<and> (\<forall>n. py_int (py_strip content) \<noteq> Inr n))"
  shows "get_last_synced_row w = Inr 1"
proof -
  { fix content
    assume c: "state_file w = Some content" "\<forall>n. py_int (py_strip content) \<noteq> Inr n"
    then have "py_int (py_strip content) = Inl ValueError"
      using py_int_error [of "py_strip content"] by (cases "py_int (py_strip content)") auto
    with c have ?thesis by (simp add: get_last_synced_row_def) }
  with assms show ?thesis by (auto simp: get_last_synced_row_def)
qed

theorem get_last_synced_row_default_witness:
  "get_last_synced_row \<lparr>state_file = None, file_writes = [], drive_requests = [],
       notion_pages = [], stdout = []\<rparr> = Inr 1
   \<and> py_int (py_strip ''12a'') = Inl ValueError
   \<and> get_last_synced_row \<lparr>state_file = Some ''12a'', file_writes = [], drive_requests = [],
       notion_pages = [], stdout = []\<rparr> = Inr 1"
proof -
  have p: "py_int (py_strip ''12a'') = Inl ValueError" by code_simp
  then have n: "\<forall>n. py_int (py_strip ''12a'') \<noteq> Inr n" by simp
  show ?thesis
    using p n
      get_last_synced_row_default [of "\<lparr>state_file = None, file_writes = [],
        drive_requests = [], notion_pages = [], stdout = []\<rparr>"]
      get_last_synced_row_default [of "\<lparr>state_file = Some ''12a'', file_writes = [],
        drive_requests = [], notion_pages = [], stdout = []\<rparr>"]
    by simp
qed

subsection \<open>Export resolution\<close>

lemma list_index_Inr: "list_index xs x = Inr i \<Longrightarrow> i < length xs \<and> xs ! i = x"
  by (induction xs arbitrary: i) (auto split: if_splits sum.splits)

lemma list_index_Inl: "list_index xs x = Inl e \<Longrightarrow> e = ValueError"
  by (induction xs) (auto split: if_splits sum.splits)

lemma export_file_id_cases:
  assumes "\<not> (\<exists>i. Suc i < length (py_split CHR ''/'' url) \<and> py_split CHR ''/'' url ! i = ''d'')"
  shows "export_file_id url = Inl ValueError \<or> export_file_id url = Inl IndexError"
proof (cases "list_index (py_split CHR ''/'' url) ''d''")
  case (Inl e)
  then have "e = ValueError" by (rule list_index_Inl)
  with Inl show ?thesis by (simp add: export_file_id_def)
next
  case (Inr i)
  then have "i < length (py_split CHR ''/'' url)" "py_split CHR ''/'' url ! i = ''d''"
    using list_index_Inr by fastforce+
  with assms have "\<not> Suc i < length (py_split CHR ''/'' url)" by blast
  with Inr show ?thesis by (simp add: export_file_id_def list_get_def)
qed

text \<open>An element followed by another one is an element of the list without its last.\<close>

lemma followed_iff_butlast:
  "(\<exists>i. Suc i < length xs \<and> xs ! i = x) \<longleftrightarrow> x \<in> set (butlast xs)"
proof
  assume "\<exists>i. Suc i < length xs \<and> xs ! i = x"
  then obtain i where i: "Suc i < length xs" "xs ! i = x" by blast
  then have "i < length (butlast xs)" by simp
  moreover from this i have "butlast xs ! i = x" by (simp add: nth_butlast)
  ultimately show "x \<in> set (butlast xs)" by (metis nth_mem)
next
  assume "x \<in> set (butlast xs)"
  then obtain i where i: "i < length (butlast xs)" "butlast xs ! i = x"
    by (auto simp: in_set_conv_nth)
  then have "Suc i < length xs" "xs ! i = x" by (auto simp: nth_butlast)
  then show "\<exists>i. Suc i < length xs \<and> xs ! i = x" by blast
qed

lemma export_no_raise: "export_file_to_pdf sv w url = (r, w') \<Longrightarrow> \<exists>d. r = Inr d"
  by (auto simp: export_file_to_pdf_def Let_def export_file_id_def list_get_def
      split: sum.splits py_error.splits if_splits dest: list_index_Inl)

text \<open>
  Links without a \<^verbatim>\<open>/d/<id>\<close> path segment for which an export request is made all the
  same. The code splits the whole link at \<^verbatim>\<open>/\<close> and takes whatever piece follows the
  first piece \<^verbatim>\<open>d\<close>: the empty piece after a final \<^verbatim>\<open>/d/\<close>, a piece of the query string,
  or the first path segment when the host is named \<^verbatim>\<open>d\<close>. In each case the request is
  executed, with that piece as \<^verbatim>\<open>fileId\<close>.
\<close>

theorem export_request_counterexample:
  "py_split CHR ''/'' ''https://docs.google.com/document/d/''
       = [''https:'', '''', ''docs.google.com'', ''document'', ''d'', '''']
   \<and> drive_requests (snd (export_file_to_pdf (example_services [] export_fails create_succeeds)
         example_world ''https://docs.google.com/document/d/''))
       = [\<lparr>fileId = '''', mimeType = ''application/pdf''\<rparr>]
   \<and> py_split CHR ''/'' ''https://example.com/view?next=/d/abc''
       = [''https:'', '''', ''example.com'', ''view?next='', ''d'', ''abc'']
   \<and> drive_requests (snd (export_file_to_pdf (example_services [] export_fails create_succeeds)
         example_world ''https://example.com/view?next=/d/abc''))
       = [\<lparr>fileId = ''abc'', mimeType = ''application/pdf''\<rparr>]
   \<and> py_split CHR ''/'' ''http://d/report'' = [''http:'', '''', ''d'', ''report'']
   \<and> drive_requests (snd (export_file_to_pdf (example_services [] export_fails create_succeeds)
         example_world ''http://d/report''))
       = [\<lparr>fileId = ''report'', mimeType = ''application/pdf''\<rparr>]
   \<and> drive_requests example_world = []"
  by code_simp

text \<open>
  Claim C6, amended. The pieces of a link are the parts of the whole link string between
  \<^verbatim>\<open>/\<close>, as the code splits it (scheme, host, path and query alike). When no piece
  \<^verbatim>\<open>d\<close> is followed by a further piece, empty or not (there is no piece \<^verbatim>\<open>d\<close> at all, or
  the only one is the last piece), \<^verbatim>\<open>export_file_to_pdf\<close> returns \<^verbatim>\<open>None\<close>, raises
  nothing and leaves the world as it was: no export request is made.
\<close>

theorem export_without_d_segment:
  assumes "\<not> (\<exists>i. Suc i < length (py_split CHR ''/'' url) \<and> py_split CHR ''/'' url ! i = ''d'')"
  shows "export_file_to_pdf sv w url = (Inr None, w)"
  using export_file_id_cases [OF assms] by (auto simp: export_file_to_pdf_def)

theorem export_without_d_segment_witness:
  "export_file_to_pdf (example_services [] export_fails create_succeeds) example_world
       ''https://example.com/files/report.pdf'' = (Inr None, example_world)
   \<and> export_file_to_pdf (example_services [] export_fails create_succeeds) example_world
       ''https://drive.google.com/file/d'' = (Inr None, example_world)
   \<and> py_split CHR ''/'' ''https://drive.google.com/file/d''
       = [''https:'', '''', ''drive.google.com'', ''file'', ''d'']"
proof -
  have a: "\<not> (\<exists>i. Suc i < length (py_split CHR ''/'' ''https://example.com/files/report.pdf'')
      \<and> py_split CHR ''/'' ''https://example.com/files/report.pdf'' ! i = ''d'')"
    unfolding followed_iff_butlast by code_simp
  have b: "\<not> (\<exists>i. Suc i < length (py_split CHR ''/'' ''https://drive.google.com/file/d'')
      \<and> py_split CHR ''/'' ''https://drive.google.com/file/d'' ! i = ''d'')"
    unfolding followed_iff_butlast by code_simp
  have c: "py_split CHR ''/'' ''https://drive.google.com/file/d''
       = [''https:'', '''', ''drive.google.com'', ''file'', ''d'']"
    by code_simp
  show ?thesis
    using export_without_d_segment [OF a] export_without_d_segment [OF b] c by simp
qed

subsection \<open>What one iteration changes\<close>

lemma export_frame:
  "export_file_to_pdf sv w url = (r, w') \<Longrightarrow>
     state_file w' = state_file w \<and> file_writes w' = file_writes w
     \<and> notion_pages w' = notion_pages w \<and> stdout w' = stdout w"
  by (auto simp: export_file_to_pdf_def Let_def split: sum.splits py_error.splits)

lemma notion_frame:
  "notion_create_entry sv w db props fb fn = (r, w') \<Longrightarrow>
     state_file w' = state_file w \<and> file_writes w' = file_writes w
     \<and> drive_requests w' = drive_requests w \<and> stdout w' = stdout w"
  by (auto simp: notion_create_entry_def Let_def split: option.splits)

lemma resolve_frame:
  "resolve_file sv w description link pdf_link = (r, w') \<Longrightarrow>
     state_file w' = state_file w \<and> file_writes w' = file_writes w
     \<and> notion_pages w' = notion_pages w \<and> stdout w' = stdout w"
  by (auto simp: resolve_file_def split: if_splits prod.splits sum.splits dest: export_frame)

lemma body_frame:
  "main_loop_body sv db r (c, n, w) = (res, w') \<Longrightarrow>
     state_file w' = state_file w \<and> file_writes w' = file_writes w \<and> stdout w' = stdout w"
  by (auto simp: main_loop_body_def Let_def split: if_splits prod.splits sum.splits
      dest!: resolve_frame notion_frame)

lemma body_counter:
  "main_loop_body sv db r (c, n, w) = (Inr (c', n'), w') \<Longrightarrow> c' = c + 1"
  by (auto simp: main_loop_body_def Let_def split: if_splits prod.splits sum.splits)

text \<open>
  For a row with a description the iteration makes exactly one creation call, with
  \<open>row_request\<close>, on the pages created so far; what the call does decides the iteration.
\<close>

lemma body_request:
  assumes "cell r 1 \<noteq> []"
  shows "\<exists>w1. main_loop_body sv db r (c, n, w) =
      (case notion_pages_create sv (notion_pages w) (row_request db r) of
         Some e \<Rightarrow> (Inl e, w1)
       | None \<Rightarrow> (Inr (c + 1, n + 1), w1\<lparr>notion_pages := notion_pages w @ [row_request db r]\<rparr>))
    \<and> state_file w1 = state_file w \<and> file_writes w1 = file_writes w
    \<and> notion_pages w1 = notion_pages w \<and> stdout w1 = stdout w"
proof (cases "cell r 3 \<noteq> []")
  case True
  with assms show ?thesis
    by (intro exI [of _ w])
       (simp add: main_loop_body_def resolve_file_def notion_create_entry_def row_request_def
          split: option.splits)
next
  case False
  show ?thesis
  proof (cases "cell r 2 \<noteq> [] \<and> startswith (cell r 2) ''http''")
    case no_export: False
    with assms False show ?thesis
      by (intro exI [of _ w])
         (auto simp: main_loop_body_def resolve_file_def notion_create_entry_def row_request_def
            split: option.splits)
  next
    case True
    obtain res w1 where x: "export_file_to_pdf sv w (cell r 2) = (res, w1)"
      by (cases "export_file_to_pdf sv w (cell r 2)") auto
    from export_no_raise [OF x] obtain d where d: "res = Inr d" by blast
    note f = export_frame [OF x]
    from assms False True x d f show ?thesis
      by (intro exI [of _ w1], cases "truthy d")
         (auto simp: main_loop_body_def resolve_file_def notion_create_entry_def row_request_def
            Let_def split: option.splits)
  qed
qed

lemma body_creation_raises:
  assumes "cell r 1 \<noteq> []"
    and "notion_pages_create sv (notion_pages w) (row_request db r) = Some e"
  shows "\<exists>w2. main_loop_body sv db r (c, n, w) = (Inl e, w2)
    \<and> state_file w2 = state_file w \<and> file_writes w2 = file_writes w
    \<and> notion_pages w2 = notion_pages w"
  using body_request [OF assms(1), of sv db c n w] assms(2) by auto

text \<open>The loop never touches the watermark file, and counts every row it is given.\<close>

lemma loop_frame:
  "main_loop sv db rs (c, n, w) = (res, w') \<Longrightarrow>
     state_file w' = state_file w \<and> file_writes w' = file_writes w \<and> stdout w' = stdout w"
proof (induction rs arbitrary: c n w)
  case Nil
  then show ?case by auto
next
  case (Cons r rs)
  then show ?case
    by (auto split: prod.splits sum.splits dest!: body_frame)
qed

lemma loop_counter:
  "main_loop sv db rs (c, n, w) = (Inr (c', n'), w') \<Longrightarrow> c' = c + int (length rs)"
proof (induction rs arbitrary: c n w)
  case Nil
  then show ?case by auto
next
  case (Cons r rs)
  then show ?case
    by (fastforce split: prod.splits sum.splits dest!: body_counter)
qed

text \<open>An exception in one iteration ends the loop with that exception.\<close>

lemma loop_raises:
  "main_loop sv db pre st = (Inr (c, n), w1) \<Longrightarrow> main_loop_body sv db r (c, n, w1) = (Inl e, w2)
     \<Longrightarrow> main_loop sv db (pre @ r # post) st = (Inl e, w2)"
  by (induction pre arbitrary: st) (auto split: sum.splits prod.splits)

subsection \<open>Claims about one row\<close>



lemma map_of_build_properties_Link:
  "u \<noteq> [] \<Longrightarrow>
     map_of (build_properties description category remark file_date (Some u)) ''Link''
       = Some (Url u)"
  by (simp add: build_properties_def Let_def update_conv')

text \<open>
  Claim C5. A row with a description and a non-empty PDF link makes no export request,
  whatever its link cell holds, and the record created for it (when the creation does not
  raise) has the PDF link, unchanged, as its \<^verbatim>\<open>Link\<close> URL property.
\<close>

theorem pdf_link_verbatim:
  assumes "1 < length r" and "r ! 1 \<noteq> []" and "3 < length r" and "r ! 3 \<noteq> []"
  shows "drive_requests (snd (main_loop_body sv db r (c, n, w))) = drive_requests w
    \<and> (\<forall>c' n'. fst (main_loop_body sv db r (c, n, w)) = Inr (c', n') \<longrightarrow>
          (\<exists>p. notion_pages (snd (main_loop_body sv db r (c, n, w))) = notion_pages w @ [p]
             \<and> map_of (page_properties p) ''Link'' = Some (Url (r ! 3))))"
proof -
  from assms have d: "cell r 1 \<noteq> []" and p: "cell r 3 = r ! 3" "cell r 3 \<noteq> []"
    by (auto simp: cell_def)
  show ?thesis
    using d p map_of_build_properties_Link [of "r ! 3" "cell r 1" "cell r 4" "cell r 5" "cell r 6"]
    by (auto simp: main_loop_body_def resolve_file_def notion_create_entry_def Let_def
        split: option.splits)
qed

theorem pdf_link_verbatim_witness:
  "drive_requests (snd (main_loop_body (example_services [] export_fails create_succeeds) ''db''
       [''u'', ''A'', ''https://docs.google.com/document/d/XYZ/edit'', ''http://x/a.pdf'']
       (5, 0, example_world))) = []
   \<and> (\<exists>p. notion_pages (snd (main_loop_body (example_services [] export_fails create_succeeds)
         ''db'' [''u'', ''A'', ''https://docs.google.com/document/d/XYZ/edit'', ''http://x/a.pdf'']
         (5, 0, example_world))) = [p]
        \<and> map_of (page_properties p) ''Link'' = Some (Url ''http://x/a.pdf''))"
proof -
  have e: "fst (main_loop_body (example_services [] export_fails create_succeeds) ''db''
       [''u'', ''A'', ''https://docs.google.com/document/d/XYZ/edit'', ''http://x/a.pdf'']
       (5, 0, example_world)) = Inr (6, 1)"
    by code_simp
  show ?thesis
    using e pdf_link_verbatim [of
        "[''u'', ''A'', ''https://docs.google.com/document/d/XYZ/edit'', ''http://x/a.pdf'']"
        "example_services [] export_fails create_succeeds" "''db''" 5 0 example_world]
    by (simp add: example_world_def)
qed

subsection \<open>Exported content\<close>

lemma export_drive_independent:
  "snd (export_file_to_pdf (sv\<lparr>drive_export_media := d'\<rparr>) w url)
     = snd (export_file_to_pdf sv w url)
   \<and> (\<exists>a b. fst (export_file_to_pdf (sv\<lparr>drive_export_media := d'\<rparr>) w url) = Inr a
          \<and> fst (export_file_to_pdf sv w url) = Inr b)"
  using export_no_raise [of sv w url] export_no_raise [of "sv\<lparr>drive_export_media := d'\<rparr>" w url]
  by (cases "export_file_to_pdf sv w url";
      cases "export_file_to_pdf (sv\<lparr>drive_export_media := d'\<rparr>) w url")
     (auto simp: export_file_to_pdf_def Let_def split: sum.splits py_error.splits)

lemma notion_create_entry_args:
  "notion_create_entry sv w db props fb fn = notion_create_entry sv w db props fb' fn'"
  by (simp add: notion_create_entry_def)

lemma body_drive_independent:
  "main_loop_body (sv\<lparr>drive_export_media := d'\<rparr>) db r st = main_loop_body sv db r st"
proof -
  obtain c n w where st: "st = (c, n, w)" by (cases st) auto
  obtain a b where
    e: "fst (export_file_to_pdf (sv\<lparr>drive_export_media := d'\<rparr>) w (cell r 2)) = Inr a"
       "fst (export_file_to_pdf sv w (cell r 2)) = Inr b"
    using export_drive_independent [where sv=sv and d'=d' and w=w and url="cell r 2"] by blast
  have s: "snd (export_file_to_pdf (sv\<lparr>drive_export_media := d'\<rparr>) w (cell r 2))
      = snd (export_file_to_pdf sv w (cell r 2))"
    using export_drive_independent [where sv=sv and d'=d' and w=w and url="cell r 2"] by blast
  show ?thesis
    using e s unfolding st
    by (cases "export_file_to_pdf sv w (cell r 2)";
        cases "export_file_to_pdf (sv\<lparr>drive_export_media := d'\<rparr>) w (cell r 2)")
       (simp add: main_loop_body_def resolve_file_def notion_create_entry_def Let_def
          build_properties_def)
qed

lemma loop_drive_independent:
  "main_loop (sv\<lparr>drive_export_media := d'\<rparr>) db rs st = main_loop sv db rs st"
  by (induction rs arbitrary: st)
     (auto simp: body_drive_independent split: prod.splits sum.splits)

text \<open>What the export service answers has no influence on anything the run does.\<close>

lemma main_drive_independent:
  "main (sv\<lparr>drive_export_media := d'\<rparr>) env w = main sv env w"
proof -
  have g: "get_google_services (sv\<lparr>drive_export_media := d'\<rparr>) env = get_google_services sv env"
    by (simp add: get_google_services_def split: option.splits)
  have r: "read_sheet_rows (sv\<lparr>drive_export_media := d'\<rparr>) a b c = read_sheet_rows sv a b c"
    for a b c
    by (simp add: read_sheet_rows_def Let_def split: sum.splits)
  have m: "main_sync (sv\<lparr>drive_export_media := d'\<rparr>) a b c w = main_sync sv a b c w" for a b c
    by (simp add: main_sync_def r loop_drive_independent split: sum.splits)
  show ?thesis by (simp add: main_def Let_def g m split: option.splits sum.splits)
qed

text \<open>
  Claim C9. Exported content is never attached. \<^verbatim>\<open>notion_create_entry\<close> does the same,
  request and result, whatever \<^verbatim>\<open>file_bytes\<close> and \<^verbatim>\<open>file_name\<close> it is given, \<^verbatim>\<open>None\<close>
  included; and a whole run creates the same records, and ends in the same world with
  the same result, whatever the export service answers.
\<close>

theorem exported_content_not_attached:
  "notion_create_entry sv w db props file_bytes file_name
     = notion_create_entry sv w db props None None
   \<and> notion_create_entry sv w db props file_bytes file_name
     = notion_create_entry sv w db props file_bytes' file_name'
   \<and> main (sv\<lparr>drive_export_media := d'\<rparr>) env w = main sv env w"
  using notion_create_entry_args [of sv w db props file_bytes file_name None None]
    notion_create_entry_args [of sv w db props file_bytes file_name file_bytes' file_name']
    main_drive_independent [where sv=sv and d'=d' and env=env and w=w]
  by simp

subsection \<open>Claims about a whole run\<close>

lemma scenario_run:
  "main (example_services scenario_rows export_fails create_succeeds) example_environ example_world =
     (Inr (),
      \<lparr>state_file = Some ''8'', file_writes = [''8''],
       drive_requests = [\<lparr>fileId = ''XYZ'', mimeType = ''application/pdf''\<rparr>],
       notion_pages =
         [\<lparr>parent_database_id = ''db'',
           page_properties = [(''File Name'', Title ''A''), (''Link'', Url ''http://x/a.pdf'')],
           page_children = []\<rparr>,
          \<lparr>parent_database_id = ''db'',
           page_properties = [(''File Name'', Title ''B'')],
           page_children = []\<rparr>],
       stdout = [''Synced 2 new records. Last synced row: 8.'']\<rparr>)"
  by code_simp

text \<open>
  Claim C3. The end-to-end scenario: the watermark file holds \<^verbatim>\<open>5\<close>, the spreadsheet
  returns \<open>scenario_rows\<close> for the rows from 6 on, and record creation does not fail. Whatever
  the export service answers, the run returns normally, has created exactly two records
  (for rows 6 and 8, the first with its PDF link as URL), has written \<^verbatim>\<open>8\<close> to the
  watermark file, and has printed \<^verbatim>\<open>Synced 2 new records. Last synced row: 8.\<close>
\<close>

theorem end_to_end_scenario:
  "main (example_services scenario_rows d create_succeeds) example_environ example_world =
     (Inr (),
      \<lparr>state_file = Some ''8'', file_writes = [''8''],
       drive_requests = [\<lparr>fileId = ''XYZ'', mimeType = ''application/pdf''\<rparr>],
       notion_pages =
         [\<lparr>parent_database_id = ''db'',
           page_properties = [(''File Name'', Title ''A''), (''Link'', Url ''http://x/a.pdf'')],
           page_children = []\<rparr>,
          \<lparr>parent_database_id = ''db'',
           page_properties = [(''File Name'', Title ''B'')],
           page_children = []\<rparr>],
       stdout = [''Synced 2 new records. Last synced row: 8.'']\<rparr>)"
proof -
  have "example_services scenario_rows d create_succeeds =
      (example_services scenario_rows export_fails create_succeeds)\<lparr>drive_export_media := d\<rparr>"
    by (simp add: example_services_def)
  then show ?thesis by (simp only: main_drive_independent scenario_run)
qed

theorem end_to_end_scenario_witness:
  "main (example_services scenario_rows (\<lambda>earlier request. Inr [37, 80, 68, 70]) create_succeeds)
       example_environ example_world =
     (Inr (),
      \<lparr>state_file = Some ''8'', file_writes = [''8''],
       drive_requests = [\<lparr>fileId = ''XYZ'', mimeType = ''application/pdf''\<rparr>],
       notion_pages =
         [\<lparr>parent_database_id = ''db'',
           page_properties = [(''File Name'', Title ''A''), (''Link'', Url ''http://x/a.pdf'')],
           page_children = []\<rparr>,
          \<lparr>parent_database_id = ''db'',
           page_properties = [(''File Name'', Title ''B'')],
           page_children = []\<rparr>],
       stdout = [''Synced 2 new records. Last synced row: 8.'']\<rparr>)"
  by (rule end_to_end_scenario [of "\<lambda>earlier request. Inr [37, 80, 68, 70]"])

lemma get_last_synced_row_cong:
  "state_file w' = state_file w \<Longrightarrow> get_last_synced_row w' = get_last_synced_row w"
  by (simp add: get_last_synced_row_def)

lemma main_sync_returns:
  assumes "get_last_synced_row w = Inr last_row"
    and "read_sheet_rows sv sid wsn (last_row + 1) = Inr rows"
    and "main_sync sv sid wsn db w = (Inr u, w')"
  shows "(rows = [] \<longrightarrow> state_file w' = state_file w \<and> file_writes w' = file_writes w)
    \<and> (rows \<noteq> [] \<longrightarrow> state_file w' = Some (decimal (last_row + int (length rows)))
          \<and> file_writes w' = file_writes w @ [decimal (last_row + int (length rows))]
          \<and> py_str (last_row + int (length rows)) = Inr (decimal (last_row + int (length rows))))"
proof (cases "rows = []")
  case True
  with assms show ?thesis by (auto simp: main_sync_def print_def)
next
  case False
  with assms obtain c n w1 w2 line
    where l: "main_loop sv db rows (last_row, 0, w) = (Inr (c, n), w1)"
      and v: "update_last_synced_row c w1 = (Inr (), w2)"
      and w': "w' = print line w2"
    by (auto simp: main_sync_def split: sum.splits prod.splits)
  from l have c: "c = last_row + int (length rows)" by (rule loop_counter)
  from l have f: "file_writes w1 = file_writes w" using loop_frame by blast
  from v obtain s where s: "py_str c = Inr s" and w2: "state_file w2 = Some s"
      "file_writes w2 = file_writes w1 @ [s]"
    by (auto simp: update_last_synced_row_def split: sum.splits)
  from s have "s = decimal c" by (rule py_str_decimal)
  with False c f s w2 w' show ?thesis by (simp add: print_def)
qed

text \<open>A run that returns normally had its configuration and went through the pipeline.\<close>

lemma main_is_main_sync:
  assumes "fst (main sv env w) = Inr u"
  shows "\<exists>sid db. env ''SHEET_ID'' = Some sid \<and> env ''NOTION_DATABASE_ID'' = Some db
     \<and> main sv env w = main_sync sv sid
          (case env ''WORKSHEET_NAME'' of None \<Rightarrow> ''Microneedling'' | Some n \<Rightarrow> n) db w"
  using assms
  by (auto simp: main_def Let_def split: option.splits if_splits sum.splits)

lemma main_to_main_sync:
  assumes "env ''SHEET_ID'' = Some sheet_id" and "sheet_id \<noteq> []"
    and "env ''NOTION_API_KEY'' = Some notion_key" and "notion_key \<noteq> []"
    and "env ''NOTION_DATABASE_ID'' = Some notion_db_id" and "notion_db_id \<noteq> []"
    and "get_google_services sv env = Inr ()"
    and "worksheet_name = (case env ''WORKSHEET_NAME'' of None \<Rightarrow> ''Microneedling'' | Some n \<Rightarrow> n)"
  shows "main sv env w = main_sync sv sheet_id worksheet_name notion_db_id w"
  using assms by (simp add: main_def)

text \<open>
  Claim C1. The run has its configuration, reads the watermark \<open>last_row\<close> and fetches
  the batch \<open>pre @ r # post\<close>. The rows \<open>pre\<close> are processed without an exception, which
  leads to the world \<open>w1\<close>; then the creation of the record of row \<open>r\<close> raises \<open>e\<close>. The run
  ends with that exception. The watermark file has its content from before the run and
  has not been opened for writing, and the records created for \<open>pre\<close> are still there.
\<close>

theorem creation_failure_keeps_watermark:
  assumes "env ''SHEET_ID'' = Some sheet_id" and "sheet_id \<noteq> []"
    and "env ''NOTION_API_KEY'' = Some notion_key" and "notion_key \<noteq> []"
    and "env ''NOTION_DATABASE_ID'' = Some notion_db_id" and "notion_db_id \<noteq> []"
    and "get_google_services sv env = Inr ()"
    and "worksheet_name = (case env ''WORKSHEET_NAME'' of None \<Rightarrow> ''Microneedling'' | Some n \<Rightarrow> n)"
    and "get_last_synced_row w = Inr last_row"
    and "read_sheet_rows sv sheet_id worksheet_name (last_row + 1) = Inr (pre @ r # post)"
    and "main_loop sv notion_db_id pre (last_row, 0, w) = (Inr (current_row, synced_count), w1)"
    and "cell r 1 \<noteq> []"
    and "notion_pages_create sv (notion_pages w1) (row_request notion_db_id r) = Some e"
  shows "fst (main sv env w) = Inl e
    \<and> state_file (snd (main sv env w)) = state_file w
    \<and> file_writes (snd (main sv env w)) = file_writes w
    \<and> notion_pages (snd (main sv env w)) = notion_pages w1"
proof -
  from body_creation_raises [OF assms(12,13)] obtain w2
    where b: "main_loop_body sv notion_db_id r (current_row, synced_count, w1) = (Inl e, w2)"
      and f: "state_file w2 = state_file w1" "file_writes w2 = file_writes w1"
        "notion_pages w2 = notion_pages w1"
    by blast
  from loop_raises [OF assms(11) b]
  have l: "main_loop sv notion_db_id (pre @ r # post) (last_row, 0, w) = (Inl e, w2)" .
  from loop_frame [OF assms(11)]
  have p: "state_file w1 = state_file w" "file_writes w1 = file_writes w" by simp_all
  have "main sv env w = main_sync sv sheet_id worksheet_name notion_db_id w"
    using assms(1-8) by (rule main_to_main_sync)
  also have "\<dots> = (Inl e, w2)"
    using assms(9,10) l by (simp add: main_sync_def)
  finally show ?thesis using f p by simp
qed

theorem creation_failure_keeps_watermark_witness:
  "read_sheet_rows (example_services three_rows export_fails create_fails_second) ''sheet''
       ''Microneedling'' (5 + 1) = Inr ([['''', ''A'']] @ ['''', ''B''] # [['''', ''C'']])
   \<and> create_fails_second
       [\<lparr>parent_database_id = ''db'', page_properties = [(''File Name'', Title ''A'')],
         page_children = []\<rparr>] (row_request ''db'' ['''', ''B''])
       = Some (ServiceError ''create failed'')
   \<and> fst (main (example_services three_rows export_fails create_fails_second) example_environ
         example_world) = Inl (ServiceError ''create failed'')
   \<and> state_file (snd (main (example_services three_rows export_fails create_fails_second)
         example_environ example_world)) = Some ''5''
   \<and> file_writes (snd (main (example_services three_rows export_fails create_fails_second)
         example_environ example_world)) = []
   \<and> notion_pages (snd (main (example_services three_rows export_fails create_fails_second)
         example_environ example_world))
       = [\<lparr>parent_database_id = ''db'', page_properties = [(''File Name'', Title ''A'')],
           page_children = []\<rparr>]"
proof -
  let ?sv = "example_services three_rows export_fails create_fails_second"
  let ?w1 = "example_world\<lparr>notion_pages :=
      [\<lparr>parent_database_id = ''db'', page_properties = [(''File Name'', Title ''A'')],
        page_children = []\<rparr>]\<rparr>"
  have e: "example_environ ''SHEET_ID'' = Some ''sheet''"
      "example_environ ''NOTION_API_KEY'' = Some ''secret''"
      "example_environ ''NOTION_DATABASE_ID'' = Some ''db''"
    by (simp_all add: example_environ_def)
  have n: "''sheet'' \<noteq> []" "''secret'' \<noteq> []" "''db'' \<noteq> []" by simp_all
  have g: "get_google_services ?sv example_environ = Inr ()" by code_simp
  have b: "''Microneedling''
      = (case example_environ ''WORKSHEET_NAME'' of None \<Rightarrow> ''Microneedling'' | Some n \<Rightarrow> n)"
    by (simp add: example_environ_def)
  have c: "get_last_synced_row example_world = Inr 5" by code_simp
  have d: "read_sheet_rows ?sv ''sheet'' ''Microneedling'' (5 + 1)
      = Inr ([['''', ''A'']] @ ['''', ''B''] # [['''', ''C'']])"
    by code_simp
  have l: "main_loop ?sv ''db'' [['''', ''A'']] (5, 0, example_world) = (Inr (6, 1), ?w1)"
    by code_simp
  have r: "cell ['''', ''B''] 1 \<noteq> []" by code_simp
  have x: "create_fails_second
       [\<lparr>parent_database_id = ''db'', page_properties = [(''File Name'', Title ''A'')],
         page_children = []\<rparr>] (row_request ''db'' ['''', ''B''])
       = Some (ServiceError ''create failed'')"
    by (simp add: create_fails_second_def)
  then have f: "notion_pages_create ?sv (notion_pages ?w1) (row_request ''db'' ['''', ''B''])
      = Some (ServiceError ''create failed'')"
    by (simp add: example_services_def)
  show ?thesis
    using d x creation_failure_keeps_watermark [OF e(1) n(1) e(2) n(2) e(3) n(3) g b c d l r f]
    by (simp add: example_world_def)
qed

text \<open>
  The empty batch. On a first run over a sheet without new rows the watermark reads 1,
  no row is fetched and the run returns normally, yet nothing is written: afterwards
  there is still no watermark file, so the file does not hold the decimal string of
  \<open>1 + 0\<close>. A run that returns normally therefore does not always write.
\<close>

theorem empty_batch_counterexample:
  "get_last_synced_row absent_world = Inr 1
   \<and> read_sheet_rows empty_sheet_services ''sheet'' ''Microneedling'' (1 + 1) = Inr []
   \<and> main empty_sheet_services example_environ absent_world
       = (Inr (), absent_world\<lparr>stdout := [''No new rows to sync.'']\<rparr>)
   \<and> state_file (absent_world\<lparr>stdout := [''No new rows to sync.'']\<rparr>) \<noteq> Some (decimal (1 + 0))
   \<and> file_writes (absent_world\<lparr>stdout := [''No new rows to sync.'']\<rparr>) = []"
proof -
  have a: "get_last_synced_row absent_world = Inr 1" by code_simp
  have b: "read_sheet_rows empty_sheet_services ''sheet'' ''Microneedling'' (1 + 1) = Inr []"
    by code_simp
  have c: "main empty_sheet_services example_environ absent_world
       = (Inr (), absent_world\<lparr>stdout := [''No new rows to sync.'']\<rparr>)"
    by code_simp
  show ?thesis using a b c by (simp add: absent_world_def)
qed

text \<open>
  Claim C2, amended. Let the watermark read at the start be \<open>last_row\<close> and let the
  spreadsheet return \<open>rows\<close> for the rows after it. After a run that returns normally the
  watermark reads \<open>last_row + length rows\<close>, which is not below \<open>last_row\<close>, whatever the
  rows hold and however many of them were skipped. When the batch is not empty the run
  has written exactly the decimal string of that number to the file, once; when it is
  empty the run has written nothing.
\<close>

theorem watermark_advances_by_batch:
  assumes "env ''SHEET_ID'' = Some sheet_id"
    and "worksheet_name = (case env ''WORKSHEET_NAME'' of None \<Rightarrow> ''Microneedling'' | Some n \<Rightarrow> n)"
    and "get_last_synced_row w = Inr last_row"
    and "read_sheet_rows sv sheet_id worksheet_name (last_row + 1) = Inr rows"
    and "main sv env w = (Inr (), w')"
  shows "get_last_synced_row w' = Inr (last_row + int (length rows))
    \<and> last_row \<le> last_row + int (length rows)
    \<and> (rows \<noteq> [] \<longrightarrow> state_file w' = Some (decimal (last_row + int (length rows)))
          \<and> file_writes w' = file_writes w @ [decimal (last_row + int (length rows))])
    \<and> (rows = [] \<longrightarrow> state_file w' = state_file w \<and> file_writes w' = file_writes w)"
proof -
  from assms(5) have "fst (main sv env w) = Inr ()" by simp
  from main_is_main_sync [OF this] assms(1,2,5) obtain db
    where m: "main_sync sv sheet_id worksheet_name db w = (Inr (), w')" by auto
  note r = main_sync_returns [OF assms(3,4) m]
  have "get_last_synced_row w' = Inr (last_row + int (length rows))"
  proof (cases "rows = []")
    case True
    with r have "state_file w' = state_file w" by simp
    then have "get_last_synced_row w' = get_last_synced_row w" by (rule get_last_synced_row_cong)
    with True assms(3) show ?thesis by simp
  next
    case False
    with r have s: "state_file w' = Some (decimal (last_row + int (length rows)))"
      and p: "py_str (last_row + int (length rows)) = Inr (decimal (last_row + int (length rows)))"
      by simp_all
    from py_int_py_str [OF p] s show ?thesis
      by (simp add: get_last_synced_row_def py_strip_decimal)
  qed
  with r show ?thesis by simp
qed

theorem watermark_advances_by_batch_witness:
  "get_last_synced_row example_world = Inr 5
   \<and> read_sheet_rows (example_services scenario_rows export_fails create_succeeds) ''sheet''
       ''Microneedling'' (5 + 1) = Inr scenario_rows
   \<and> int (length scenario_rows) = 3
   \<and> get_last_synced_row
       \<lparr>state_file = Some ''8'', file_writes = [''8''],
        drive_requests = [\<lparr>fileId = ''XYZ'', mimeType = ''application/pdf''\<rparr>],
        notion_pages =
          [\<lparr>parent_database_id = ''db'',
            page_properties = [(''File Name'', Title ''A''), (''Link'', Url ''http://x/a.pdf'')],
            page_children = []\<rparr>,
           \<lparr>parent_database_id = ''db'',
            page_properties = [(''File Name'', Title ''B'')],
            page_children = []\<rparr>],
        stdout = [''Synced 2 new records. Last synced row: 8.'']\<rparr> = Inr (5 + 3)"
proof -
  have a: "example_environ ''SHEET_ID'' = Some ''sheet''"
    by (simp add: example_environ_def)
  have b: "''Microneedling''
      = (case example_environ ''WORKSHEET_NAME'' of None \<Rightarrow> ''Microneedling'' | Some n \<Rightarrow> n)"
    by (simp add: example_environ_def)
  have c: "get_last_synced_row example_world = Inr 5" by code_simp
  have d: "read_sheet_rows (example_services scenario_rows export_fails create_succeeds) ''sheet''
       ''Microneedling'' (5 + 1) = Inr scenario_rows"
    by code_simp
  have l: "int (length scenario_rows) = 3" by (simp add: scenario_rows_def)
  show ?thesis
    using c d l watermark_advances_by_batch [OF a b c d scenario_run] by simp
qed

text \<open>
  Claim C10. With a complete configuration and working Google clients, when the
  spreadsheet returns no rows the run prints \<^verbatim>\<open>No new rows to sync.\<close> and returns; that
  line is the only change of the world: the watermark file is not written, not even with
  its old content, and no record is created.
\<close>

theorem no_new_rows:
  assumes "env ''SHEET_ID'' = Some sheet_id" and "sheet_id \<noteq> []"
    and "env ''NOTION_API_KEY'' = Some notion_key" and "notion_key \<noteq> []"
    and "env ''NOTION_DATABASE_ID'' = Some notion_db_id" and "notion_db_id \<noteq> []"
    and "get_google_services sv env = Inr ()"
    and "worksheet_name = (case env ''WORKSHEET_NAME'' of None \<Rightarrow> ''Microneedling'' | Some n \<Rightarrow> n)"
    and "get_last_synced_row w = Inr last_row"
    and "read_sheet_rows sv sheet_id worksheet_name (last_row + 1) = Inr []"
  shows "main sv env w = (Inr (), w\<lparr>stdout := stdout w @ [''No new rows to sync.'']\<rparr>)"
  using assms by (simp add: main_def main_sync_def print_def)

theorem no_new_rows_witness:
  "get_google_services (example_services [] export_fails create_succeeds) example_environ = Inr ()
   \<and> get_last_synced_row example_world = Inr 5
   \<and> read_sheet_rows (example_services [] export_fails create_succeeds) ''sheet''
       ''Microneedling'' (5 + 1) = Inr []
   \<and> main (example_services [] export_fails create_succeeds) example_environ example_world
       = (Inr (), example_world\<lparr>stdout := [''No new rows to sync.'']\<rparr>)"
proof -
  have e: "example_environ ''SHEET_ID'' = Some ''sheet''"
      "example_environ ''NOTION_API_KEY'' = Some ''secret''"
      "example_environ ''NOTION_DATABASE_ID'' = Some ''db''"
    by (simp_all add: example_environ_def)
  have n: "''sheet'' \<noteq> []" "''secret'' \<noteq> []" "''db'' \<noteq> []" by simp_all
  have g: "get_google_services (example_services [] export_fails create_succeeds)
      example_environ = Inr ()"
    by code_simp
  have b: "''Microneedling''
      = (case example_environ ''WORKSHEET_NAME'' of None \<Rightarrow> ''Microneedling'' | Some n \<Rightarrow> n)"
    by (simp add: example_environ_def)
  have c: "get_last_synced_row example_world = Inr 5" by code_simp
  have d: "read_sheet_rows (example_services [] export_fails create_succeeds) ''sheet''
       ''Microneedling'' (5 + 1) = Inr []"
    by code_simp
  have s: "stdout example_world = []" by (simp add: example_world_def)
  show ?thesis
    using g c d s no_new_rows [OF e(1) n(1) e(2) n(2) e(3) n(3) g b c d] by simp
qed

end
